theory Spec2Isabelle
  imports Complex_Main "HOL-Library.Word"
begin

section \<open>Scene data of Include/Utils.h\<close>

text \<open>
  The header declares the scene representation of the framework: textures, materials,
  instances, meshes, keyframed animation nodes, node trees and the scene that owns
  them. The structs are records here, the enums are datatypes, \<open>uintN_t\<close> is an
  \<open>N word\<close> and \<open>std::vector\<close> is a list (its capacity is not represented,
  so \<open>shrink_to_fit\<close> has no counterpart).

  The scalar type of the vectors and matrices is a type parameter \<open>'a\<close>: the
  \<open>float\<close> and \<open>double\<close> of the header are not distinguished, and rounding is
  not represented. The vector and matrix types come from the external math library; they
  are given here by their components.

  Where two structs have a field of the same name, one of them carries the name of its
  struct: \<open>sceneInstances\<close> is \<open>Scene::instances\<close>, \<open>nodeTransform\<close> and
  \<open>nodeHash\<close> are \<open>NodeTree::mTransform\<close> and \<open>NodeTree::hash\<close>,
  \<open>materialAlphaMode\<close> is \<open>Material::alphaMode\<close>, \<open>meshAabb\<close> is
  \<open>Mesh::aabb\<close>, and the fields of \<open>Vertex\<close> and \<open>UnpackedVertex\<close> are
  prefixed likewise.
\<close>

subsection \<open>Vectors and matrices of the math library\<close>

datatype 'a float3 = Float3 'a 'a 'a

datatype 'a float4 = Float4 'a 'a 'a 'a

text \<open>A matrix is given by its four columns; the fourth column holds the translation.\<close>

datatype 'a float4x4 = Float4x4 (col0: "'a float4") (col1: "'a float4") (col2: "'a float4") (col3: "'a float4")

definition Zero3 :: "'a::zero float3" where
  "Zero3 = Float3 0 0 0"

definition Identity :: "'a::{zero,one} float4x4" where
  "Identity = Float4x4 (Float4 1 0 0 0) (Float4 0 1 0 0) (Float4 0 0 1 0) (Float4 0 0 0 1)"

record 'a cBoxf =
  vMin :: "'a float3"
  vMax :: "'a float3"

subsection \<open>Constants and enums\<close>

text \<open>\<^verbatim>\<open>constexpr uint32_t InvalidIndex = uint32_t(-1);\<close>\<close>

definition InvalidIndex :: "32 word" where
  "InvalidIndex = - 1"

datatype StaticTexture = Black | Invalid | FlatNormal | ScramblingRanking1spp | SobolSequence

fun StaticTexture_value :: "StaticTexture \<Rightarrow> 32 word" where
  "StaticTexture_value Black = 0"
| "StaticTexture_value Invalid = 1"
| "StaticTexture_value FlatNormal = 2"
| "StaticTexture_value ScramblingRanking1spp = 3"
| "StaticTexture_value SobolSequence = 4"

datatype AlphaMode = OPAQUE | PREMULTIPLIED | TRANSPARENT | OFF

subsection \<open>Structs\<close>

text \<open>
  A pointer is an address; \<open>nullptr\<close> is address 0. The texture format is an enum of
  the rendering interface, a type parameter \<open>'f\<close> here.
\<close>

type_synonym ptr = nat

definition nullptr :: ptr where
  "nullptr = 0"

record 'f Texture =
  mips :: ptr
  name :: string
  hash :: "64 word"
  alphaMode :: AlphaMode
  format :: 'f
  width :: "16 word"
  height :: "16 word"
  depth :: "16 word"
  mipNum :: "16 word"
  arraySize :: "16 word"

record Material =
  diffuseMapIndex :: "32 word"
  specularMapIndex :: "32 word"
  normalMapIndex :: "32 word"
  emissiveMapIndex :: "32 word"
  materialAlphaMode :: AlphaMode

definition Material_default :: Material where
  "Material_default =
     \<lparr>diffuseMapIndex = StaticTexture_value Black,
      specularMapIndex = StaticTexture_value Black,
      normalMapIndex = StaticTexture_value FlatNormal,
      emissiveMapIndex = StaticTexture_value Black,
      materialAlphaMode = OPAQUE\<rparr>"

record 'a Instance =
  rotation :: "'a float4x4"
  rotationPrev :: "'a float4x4"
  position :: "'a float3"
  positionPrev :: "'a float3"
  scale :: "'a float3"
  meshIndex :: "32 word"
  materialIndex :: "32 word"
  allowUpdate :: bool

text \<open>The default member initialisers of \<open>struct Instance\<close>; \<open>float3(1.0f)\<close> sets
  every component to 1.\<close>

definition Instance_default :: "'a::{zero,one} Instance" where
  "Instance_default =
     \<lparr>rotation = Identity,
      rotationPrev = Identity,
      position = Zero3,
      positionPrev = Zero3,
      scale = Float3 1 1 1,
      meshIndex = InvalidIndex,
      materialIndex = InvalidIndex,
      allowUpdate = False\<rparr>"

record 'a Mesh =
  meshAabb :: "'a cBoxf"
  vertexOffset :: "32 word"
  indexOffset :: "32 word"
  indexNum :: "32 word"
  vertexNum :: "32 word"
  blasIndex :: "32 word"

record 'a Vertex =
  vertexPosition :: "'a float3"
  uv :: "32 word"
  normal :: "32 word"
  tangent :: "32 word"

record 'a UnpackedVertex =
  unpackedPosition :: "'a float3"
  unpackedUv :: "'a \<times> 'a"
  unpackedNormal :: "'a float3"
  unpackedTangent :: "'a float4"

record 'a Primitive =
  worldToUvUnits :: 'a
  curvature :: 'a

record 'a AnimationNode =
  positionValues :: "'a float3 list"
  rotationValues :: "'a float4 list"
  scaleValues :: "'a float3 list"
  positionKeys :: "'a list"
  rotationKeys :: "'a list"
  scaleKeys :: "'a list"
  mTransform :: "'a float4x4"

text \<open>A node owns its children by value, so the tree is a recursive datatype.\<close>

datatype 'a NodeTree =
  NodeTree (children: "'a NodeTree list") (instances: "32 word list")
    (nodeTransform: "'a float4x4") (nodeHash: "64 word") (animationNodeIndex: "32 word")

record 'a Animation =
  animationNodes :: "'a AnimationNode list"
  rootNode :: "'a NodeTree"
  cameraNode :: "'a NodeTree"
  animationName :: string
  durationMs :: 'a
  animationProgress :: 'a
  sign :: 'a
  normalizedTime :: 'a
  hasCameraAnimation :: bool

record 'a Scene =
  textures :: "ptr list"
  vertices :: "'a Vertex list"
  unpackedVertices :: "'a UnpackedVertex list"
  indices :: "16 word list"
  primitives :: "'a Primitive list"
  materials :: "Material list"
  sceneInstances :: "'a Instance list"
  meshes :: "'a Mesh list"
  animations :: "'a Animation list"
  mSceneToWorld :: "'a float4x4"
  aabb :: "'a cBoxf"

subsection \<open>The heap of textures\<close>

text \<open>
  The scene holds its textures as owning raw pointers. The heap is the list of the live
  \<open>Texture\<close> objects with their addresses. \<open>delete\<close> of the null pointer does
  nothing; \<open>delete\<close> of a live object removes it; \<open>delete\<close> of anything else
  (a dangling pointer, a second \<open>delete\<close>) is undefined behaviour, an error here.
\<close>

type_synonym 'f heap = "(ptr \<times> 'f Texture) list"

datatype error =
  InvalidDelete
  | InstanceOutOfRange
  | AnimationNodeOutOfRange
  | NonFiniteTime

definition delete_Texture :: "ptr \<Rightarrow> 'f heap \<Rightarrow> error + 'f heap" where
  "delete_Texture p h =
     (if p = nullptr then Inr h
      else case map_of h p of
        None \<Rightarrow> Inl InvalidDelete
      | Some t \<Rightarrow> Inr (filter (\<lambda>kv. fst kv \<noteq> p) h))"

text \<open>\<^verbatim>\<open>for (auto texture : textures) delete texture;\<close>\<close>

fun delete_each :: "ptr list \<Rightarrow> 'f heap \<Rightarrow> error + 'f heap" where
  "delete_each [] h = Inr h"
| "delete_each (p # ps) h =
     (case delete_Texture p h of Inl e \<Rightarrow> Inl e | Inr h' \<Rightarrow> delete_each ps h')"

subsection \<open>Unloading transient data\<close>

definition UnloadTextureData :: "'f heap \<times> 'a Scene \<Rightarrow> error + ('f heap \<times> 'a Scene)" where
  "UnloadTextureData st =
     (case delete_each (textures (snd st)) (fst st) of
        Inl e \<Rightarrow> Inl e
      | Inr h' \<Rightarrow> Inr (h', (snd st)\<lparr>textures := []\<rparr>))"

definition UnloadGeometryData :: "'a Scene \<Rightarrow> 'a Scene" where
  "UnloadGeometryData s =
     s\<lparr>vertices := [], unpackedVertices := [], indices := [], primitives := []\<rparr>"

text \<open>\<^verbatim>\<open>~Scene() { UnloadTextureData(); }\<close>\<close>

definition Scene_destructor :: "'f heap \<times> 'a Scene \<Rightarrow> error + ('f heap \<times> 'a Scene)" where
  "Scene_destructor st = UnloadTextureData st"

text \<open>The textures a scene owns: the non-null entries of its list.\<close>

definition owned :: "'a Scene \<Rightarrow> ptr list" where
  "owned s = filter (\<lambda>p. p \<noteq> nullptr) (textures s)"

section \<open>Animation\<close>

text \<open>
  The header declares \<open>AnimationNode::Update\<close>, \<open>NodeTree::Animate\<close> and
  \<open>Scene::Animate\<close>; their bodies are in a source file other than the header. They
  are modelled from the specification of the module, each definition saying so.
\<close>

subsection \<open>Operations of the math library\<close>

text \<open>
  The product of two matrices, written out on the columns: the columns of \<open>A \<times> B\<close>
  are \<open>A\<close> applied to the columns of \<open>B\<close>.
\<close>

fun scale4 :: "'a::times \<Rightarrow> 'a float4 \<Rightarrow> 'a float4" where
  "scale4 s (Float4 x y z w) = Float4 (x * s) (y * s) (z * s) (w * s)"

fun add4 :: "'a::plus float4 \<Rightarrow> 'a float4 \<Rightarrow> 'a float4" where
  "add4 (Float4 x y z w) (Float4 x' y' z' w') = Float4 (x + x') (y + y') (z + z') (w + w')"

fun mul_vec :: "'a::{plus,times} float4x4 \<Rightarrow> 'a float4 \<Rightarrow> 'a float4" where
  "mul_vec (Float4x4 c0 c1 c2 c3) (Float4 x y z w) =
     add4 (add4 (add4 (scale4 x c0) (scale4 y c1)) (scale4 z c2)) (scale4 w c3)"

fun mat_mul :: "'a::{plus,times} float4x4 \<Rightarrow> 'a float4x4 \<Rightarrow> 'a float4x4" where
  "mat_mul A (Float4x4 b0 b1 b2 b3) =
     Float4x4 (mul_vec A b0) (mul_vec A b1) (mul_vec A b2) (mul_vec A b3)"

fun translationMatrix :: "'a::{zero,one} float3 \<Rightarrow> 'a float4x4" where
  "translationMatrix (Float3 x y z) =
     Float4x4 (Float4 1 0 0 0) (Float4 0 1 0 0) (Float4 0 0 1 0) (Float4 x y z 1)"

fun scaleMatrix :: "'a::{zero,one} float3 \<Rightarrow> 'a float4x4" where
  "scaleMatrix (Float3 x y z) =
     Float4x4 (Float4 x 0 0 0) (Float4 0 y 0 0) (Float4 0 0 z 0) (Float4 0 0 0 1)"

text \<open>
  Modelled from the spec: "the new world-derived rotation and position" of step 3 of
  \<open>NodeTree::Animate\<close>. The spec does not say how the two are derived; here the
  position is the translation of the world transform and the rotation is the world
  transform without its translation.
\<close>

fun translationOf :: "'a float4x4 \<Rightarrow> 'a float3" where
  "translationOf (Float4x4 c0 c1 c2 (Float4 x y z w)) = Float3 x y z"

fun rotationOf :: "'a::{zero,one} float4x4 \<Rightarrow> 'a float4x4" where
  "rotationOf (Float4x4 c0 c1 c2 c3) = Float4x4 c0 c1 c2 (Float4 0 0 0 1)"

text \<open>Linear interpolation, component by component.\<close>

definition lerp :: "'a::{plus,minus,times} \<Rightarrow> 'a \<Rightarrow> 'a \<Rightarrow> 'a" where
  "lerp a b f = a + (b - a) * f"

fun lerp3 :: "'a::{plus,minus,times} float3 \<Rightarrow> 'a float3 \<Rightarrow> 'a \<Rightarrow> 'a float3" where
  "lerp3 (Float3 x y z) (Float3 x' y' z') f = Float3 (lerp x x' f) (lerp y y' f) (lerp z z' f)"

fun dot4 :: "'a::{plus,times} float4 \<Rightarrow> 'a float4 \<Rightarrow> 'a" where
  "dot4 (Float4 x y z w) (Float4 x' y' z' w') = x * x' + y * y' + z * z' + w * w'"

fun neg4 :: "'a::uminus float4 \<Rightarrow> 'a float4" where
  "neg4 (Float4 x y z w) = Float4 (- x) (- y) (- z) (- w)"

text \<open>
  Two operations of the math library are parameters of the model: the spherical
  interpolation of two quaternions at a factor, and the rotation matrix of a quaternion.
\<close>

record 'a MathLib =
  Slerp :: "'a float4 \<Rightarrow> 'a float4 \<Rightarrow> 'a \<Rightarrow> 'a float4"
  QuaternionToMatrix :: "'a float4 \<Rightarrow> 'a float4x4"

subsection \<open>Sampling a keyframe track\<close>

text \<open>
  Modelled from the spec: the sampling policy of \<open>AnimationNode::Update\<close>, whose body
  is missing. A track is the sequence of the (time, value) pairs of a channel. "Find the
  bracketing keyframe pair \<open>(t0,v0),(t1,v1)\<close> such that \<open>t0 \<le> time \<le> t1\<close>; if time
  precedes the first key, clamp to the first value; if it follows the last key, clamp to
  the last value. Interpolation factor \<open>f = (time - t0) / (t1 - t0)\<close> (guard
  \<open>t1 == t0\<close> by treating factor as 0)." A channel with zero keys yields nothing (it
  contributes the identity). Where no pair of neighbours brackets the time (a single key
  at its own time, or times that do not increase) the sample stays clamped to the last
  value. The keys and the values of a channel are two vectors in the struct; the track
  pairs them by position, up to the length of the shorter one.
\<close>

fun bracket :: "('a::ord \<times> 'v) list \<Rightarrow> 'a \<Rightarrow> (('a \<times> 'v) \<times> ('a \<times> 'v)) option" where
  "bracket (k0 # k1 # ks) t =
     (if fst k0 \<le> t \<and> t \<le> fst k1 then Some (k0, k1) else bracket (k1 # ks) t)"
| "bracket ks t = None"

text \<open>Modelled from the spec: the interpolation factor, with its guard.\<close>

definition factor :: "'a::{zero,minus,inverse} \<Rightarrow> 'a \<Rightarrow> 'a \<Rightarrow> 'a" where
  "factor t t0 t1 = (if t1 = t0 then 0 else (t - t0) / (t1 - t0))"

text \<open>
  Modelled from the spec: the sample of one channel at a time, with the interpolation of
  the channel's values as a parameter.
\<close>

definition sample ::
  "('v \<Rightarrow> 'v \<Rightarrow> 'a \<Rightarrow> 'v) \<Rightarrow> 'a::{ord,zero,minus,inverse} list \<Rightarrow> 'v list \<Rightarrow> 'a \<Rightarrow> 'v option" where
  "sample interp keys vals t =
     (case zip keys vals of
        [] \<Rightarrow> None
      | k # ks \<Rightarrow>
          if t < fst k then Some (snd k)
          else if fst (last (k # ks)) < t then Some (snd (last (k # ks)))
          else (case bracket (k # ks) t of
                  Some (k0, k1) \<Rightarrow> Some (interp (snd k0) (snd k1) (factor t (fst k0) (fst k1)))
                | None \<Rightarrow> Some (snd (last (k # ks)))))"


text \<open>
  Modelled from the spec: "Rotation: spherical linear interpolation between quaternions,
  shortest-arc (negate one quaternion if the dot product is negative before
  interpolating)", the adjusted pair having a non-negative dot product with \<open>v0\<close>: it
  is \<open>v1\<close> that is negated.
\<close>

definition shortestArc ::
  "'a::{ord,zero,plus,times,uminus} MathLib \<Rightarrow> 'a float4 \<Rightarrow> 'a float4 \<Rightarrow> 'a \<Rightarrow> 'a float4" where
  "shortestArc ml v0 v1 f =
     (if dot4 v0 v1 < 0 then Slerp ml v0 (neg4 v1) f else Slerp ml v0 v1 f)"

text \<open>
  Modelled from the spec: the three channels of a node. "Position/scale: linear
  interpolation component-wise."
\<close>

definition samplePosition :: "'a::{ord,zero,plus,minus,times,inverse} AnimationNode \<Rightarrow> 'a \<Rightarrow> 'a float3 option" where
  "samplePosition n t = sample lerp3 (positionKeys n) (positionValues n) t"

definition sampleRotation ::
  "'a::{ord,zero,plus,minus,times,inverse,uminus} MathLib \<Rightarrow> 'a AnimationNode \<Rightarrow> 'a \<Rightarrow> 'a float4 option" where
  "sampleRotation ml n t = sample (shortestArc ml) (rotationKeys n) (rotationValues n) t"

definition sampleScale :: "'a::{ord,zero,plus,minus,times,inverse} AnimationNode \<Rightarrow> 'a \<Rightarrow> 'a float3 option" where
  "sampleScale n t = sample lerp3 (scaleKeys n) (scaleValues n) t"

subsection \<open>AnimationNode::Update\<close>

text \<open>
  Modelled from the spec: \<open>AnimationNode::Update\<close>, whose body is missing.
  "\<open>Update(time)\<close> samples each of the three keyframe channels independently at
  \<open>time\<close> and writes a composed local transform (translation \<times> rotation \<times> scale) into
  the node's cached transform field. A channel with zero keys contributes identity (no
  translation / no rotation / unit scale). Side effect: mutates only this node's cached
  transform."
\<close>

definition composeTransform ::
  "'a::{zero,one,plus,times} MathLib \<Rightarrow> 'a float3 option \<Rightarrow> 'a float4 option \<Rightarrow> 'a float3 option \<Rightarrow> 'a float4x4" where
  "composeTransform ml p r s =
     mat_mul
       (mat_mul
          (translationMatrix (case p of None \<Rightarrow> Zero3 | Some v \<Rightarrow> v))
          (case r of None \<Rightarrow> Identity | Some q \<Rightarrow> QuaternionToMatrix ml q))
       (scaleMatrix (case s of None \<Rightarrow> Float3 1 1 1 | Some v \<Rightarrow> v))"

text \<open>Modelled from the spec: \<open>AnimationNode::Update\<close> itself.\<close>

definition Update :: "'a::{ord,zero,one,plus,minus,times,inverse,uminus} MathLib \<Rightarrow> 'a AnimationNode \<Rightarrow> 'a \<Rightarrow> 'a AnimationNode" where
  "Update ml n t =
     n\<lparr>mTransform :=
         composeTransform ml (samplePosition n t) (sampleRotation ml n t) (sampleScale n t)\<rparr>"

subsection \<open>NodeTree::Animate\<close>

text \<open>
  Modelled from the spec: \<open>NodeTree::Animate\<close>, whose body is missing.
  "1. Compute this node's local transform: if \<open>animationNodeIndex != InvalidIndex\<close>,
  use the cached transform of \<open>animationNodes[animationNodeIndex]\<close>; otherwise use the
  node's static \<open>mTransform\<close>. 2. World transform = parentTransform \<times> localTransform.
  3. For every instance index this node owns: write the previous frame's instance
  transform into \<open>positionPrev\<close>/\<open>rotationPrev\<close>, then write the new world-derived
  rotation and position into the instance's current fields. 4. If \<open>outTransform\<close> is
  non-null, write world transform into it and do not touch any instance. 5. Recurse into
  every child with world transform as the new parent transform."

  The pointer \<open>outTransform\<close> is an option: \<open>None\<close> is the null pointer,
  \<open>Some m\<close> a pointer to memory that holds \<open>m\<close>. An index beyond its vector is an
  error of the model.
\<close>

definition nodeLocal :: "'a NodeTree \<Rightarrow> 'a AnimationNode list \<Rightarrow> error + 'a float4x4" where
  "nodeLocal node nodes =
     (if animationNodeIndex node = InvalidIndex then Inr (nodeTransform node)
      else if unat (animationNodeIndex node) < length nodes
        then Inr (mTransform (nodes ! unat (animationNodeIndex node)))
      else Inl AnimationNodeOutOfRange)"

text \<open>
  Modelled from the spec: step 3 of \<open>NodeTree::Animate\<close> for one instance, the
  previous fields first.
\<close>

definition writeInstance :: "'a::{zero,one} float4x4 \<Rightarrow> 'a Instance \<Rightarrow> 'a Instance" where
  "writeInstance world inst =
     inst\<lparr>rotationPrev := rotation inst, positionPrev := position inst,
          rotation := rotationOf world, position := translationOf world\<rparr>"

text \<open>Modelled from the spec: step 3 for every instance index the node owns, in order.\<close>

fun writeInstances :: "'a::{zero,one} float4x4 \<Rightarrow> 32 word list \<Rightarrow> 'a Instance list \<Rightarrow> error + 'a Instance list" where
  "writeInstances world [] insts = Inr insts"
| "writeInstances world (i # is) insts =
     (if unat i < length insts
      then writeInstances world is (insts[unat i := writeInstance world (insts ! unat i)])
      else Inl InstanceOutOfRange)"

text \<open>
  Modelled from the spec: \<open>NodeTree::Animate\<close> itself, and its loop over the
  children.
\<close>

fun Animate ::
  "'a::{zero,one,plus,times} NodeTree \<Rightarrow> 'a AnimationNode list \<Rightarrow> 'a float4x4
    \<Rightarrow> 'a Scene \<times> 'a float4x4 option \<Rightarrow> error + ('a Scene \<times> 'a float4x4 option)"
and AnimateChildren ::
  "'a NodeTree list \<Rightarrow> 'a AnimationNode list \<Rightarrow> 'a float4x4
    \<Rightarrow> 'a Scene \<times> 'a float4x4 option \<Rightarrow> error + ('a Scene \<times> 'a float4x4 option)"
where
  "Animate (NodeTree cs is m h a) nodes parent st =
     (case nodeLocal (NodeTree cs is m h a) nodes of
        Inl e \<Rightarrow> Inl e
      | Inr loc \<Rightarrow>
          (case snd st of
             Some out \<Rightarrow> AnimateChildren cs nodes (mat_mul parent loc) (fst st, Some (mat_mul parent loc))
           | None \<Rightarrow>
               (case writeInstances (mat_mul parent loc) is (sceneInstances (fst st)) of
                  Inl e \<Rightarrow> Inl e
                | Inr insts \<Rightarrow>
                    AnimateChildren cs nodes (mat_mul parent loc)
                      ((fst st)\<lparr>sceneInstances := insts\<rparr>, None))))"
| "AnimateChildren [] nodes parent st = Inr st"
| "AnimateChildren (c # cs) nodes parent st =
     (case Animate c nodes parent st of
        Inl e \<Rightarrow> Inl e
      | Inr st' \<Rightarrow> AnimateChildren cs nodes parent st')"

subsection \<open>Scene::Animate\<close>

text \<open>
  Modelled from the spec: \<open>Scene::Animate\<close>, whose body is missing.
  "1. Validate \<open>animationIndex\<close> against the animations list; fail silently (no-op) if
  out of range. 2. Advance normalized time: \<open>progress += elapsedTime * speed /
  duration\<close>, wrapped into [0,1] (loop) or reflected with sign flip at bounds
  (ping-pong); policy is a property of the \<open>Animation\<close> instance. 3. Convert
  normalized time back to milliseconds and call \<open>Update(timeMs)\<close> on every
  \<open>AnimationNode\<close> owned by the animation. 4. Invoke
  \<open>rootNode.Animate(scene, animationNodes, identityTransform)\<close>. 5. If the animation
  has a camera node, invoke
  \<open>cameraNode.Animate(scene, animationNodes, identityTransform, outCameraTransform)\<close>;
  otherwise leave it untouched."

  The struct has no field for the playback policy, and the spec leaves the rule at the
  bounds open. The rule is therefore the parameter \<open>playback\<close> of the model: from the
  animation and the advanced progress it gives the progress that is kept and the sign.
  The result holds the scene, the progress (a reference parameter of the method) and the
  memory behind \<open>outCameraTransform\<close>. A duration of zero makes the quotient of step 2
  infinite or undefined in floating point; the model stops there with an error.
\<close>

definition Scene_Animate ::
  "'a::{ord,zero,one,plus,minus,times,inverse,uminus} MathLib \<Rightarrow> ('a Animation \<Rightarrow> 'a \<Rightarrow> 'a \<times> 'a)
    \<Rightarrow> 'a Scene \<Rightarrow> 'a \<Rightarrow> 'a \<Rightarrow> 'a \<Rightarrow> 32 word
    \<Rightarrow> 'a float4x4 option \<Rightarrow> error + ('a Scene \<times> 'a \<times> 'a float4x4 option)" where
  "Scene_Animate ml playback scene animationSpeed elapsedTime progress animationIndex outCameraTransform =
     (if length (animations scene) \<le> unat animationIndex
      then Inr (scene, progress, outCameraTransform)
      else
        let a = animations scene ! unat animationIndex in
        if durationMs a = 0 then Inl NonFiniteTime
        else
          let adv = playback a (progress + elapsedTime * animationSpeed / durationMs a);
              timeMs = fst adv * durationMs a;
              nodes = map (\<lambda>n. Update ml n timeMs) (animationNodes a);
              a' = a\<lparr>animationNodes := nodes, animationProgress := fst adv,
                     sign := snd adv, normalizedTime := fst adv\<rparr>;
              scene1 = scene\<lparr>animations := (animations scene)[unat animationIndex := a']\<rparr>
          in
            (case Animate (rootNode a') nodes Identity (scene1, None) of
               Inl e \<Rightarrow> Inl e
             | Inr st2 \<Rightarrow>
                 if hasCameraAnimation a'
                 then (case Animate (cameraNode a') nodes Identity (fst st2, outCameraTransform) of
                         Inl e \<Rightarrow> Inl e
                       | Inr st3 \<Rightarrow> Inr (fst st3, fst adv, snd st3))
                 else Inr (fst st2, fst adv, outCameraTransform)))"

subsection \<open>The world transforms of a tree\<close>

text \<open>
  Modelled from the spec: step 1 of \<open>NodeTree::Animate\<close> as a total function, for
  trees whose animation node indices are in range.
\<close>

definition localOf :: "'a NodeTree \<Rightarrow> 'a AnimationNode list \<Rightarrow> 'a float4x4" where
  "localOf node nodes = (case nodeLocal node nodes of Inr m \<Rightarrow> m | Inl e \<Rightarrow> nodeTransform node)"

text \<open>
  Modelled from the spec: the transforms a traversal assigns, as a list. Every instance
  index of the tree comes with the world transform of the node that owns it (step 2: the
  parent's world transform times the node's local transform), in the order of the
  traversal.
\<close>

fun worldTransforms ::
  "'a::{plus,times} NodeTree \<Rightarrow> 'a AnimationNode list \<Rightarrow> 'a float4x4 \<Rightarrow> (32 word \<times> 'a float4x4) list"
and childrenWorldTransforms ::
  "'a NodeTree list \<Rightarrow> 'a AnimationNode list \<Rightarrow> 'a float4x4 \<Rightarrow> (32 word \<times> 'a float4x4) list"
where
  "worldTransforms (NodeTree cs is m h a) nodes parent =
     map (\<lambda>i. (i, mat_mul parent (localOf (NodeTree cs is m h a) nodes))) is
     @ childrenWorldTransforms cs nodes (mat_mul parent (localOf (NodeTree cs is m h a) nodes))"
| "childrenWorldTransforms [] nodes parent = []"
| "childrenWorldTransforms (c # cs) nodes parent =
     worldTransforms c nodes parent @ childrenWorldTransforms cs nodes parent"


section \<open>Example data\<close>

text \<open>
  A heap with three textures and a scene that owns two of them (its list also holds a
  null pointer).
\<close>

definition exampleTexture :: "nat Texture" where
  "exampleTexture =
     \<lparr>mips = nullptr, name = ''albedo'', hash = 0, alphaMode = OPAQUE, format = 0,
      width = 4, height = 4, depth = 1, mipNum = 1, arraySize = 1\<rparr>"

definition exampleHeap :: "nat heap" where
  "exampleHeap = [(1, exampleTexture), (2, exampleTexture), (3, exampleTexture)]"

definition emptyScene :: "rat Scene" where
  "emptyScene =
     \<lparr>textures = [], vertices = [], unpackedVertices = [], indices = [], primitives = [],
      materials = [], sceneInstances = [], meshes = [], animations = [],
      mSceneToWorld = Identity, aabb = \<lparr>vMin = Zero3, vMax = Zero3\<rparr>\<rparr>"

definition exampleScene :: "rat Scene" where
  "exampleScene =
     emptyScene
       \<lparr>textures := [1, 0, 2],
        vertices := [\<lparr>vertexPosition = Float3 0 0 0, uv = 0, normal = 0, tangent = 0\<rparr>],
        indices := [0, 0, 0],
        primitives := [\<lparr>worldToUvUnits = 1, curvature = 0\<rparr>],
        materials := [Material_default],
        sceneInstances := [Instance_default]\<rparr>"

text \<open>
  An instance of the math library for the examples. A linear blend stands in for the
  spherical interpolation; the two agree at the factors 0 and 1.
\<close>

fun lerp4 :: "'a::{plus,minus,times} float4 \<Rightarrow> 'a float4 \<Rightarrow> 'a \<Rightarrow> 'a float4" where
  "lerp4 (Float4 x y z w) (Float4 x' y' z' w') f =
     Float4 (lerp x x' f) (lerp y y' f) (lerp z z' f) (lerp w w' f)"

fun quaternionMatrix :: "'a::{zero,one,plus,minus,times,numeral} float4 \<Rightarrow> 'a float4x4" where
  "quaternionMatrix (Float4 x y z w) =
     Float4x4
       (Float4 (1 - 2 * (y * y + z * z)) (2 * (x * y + z * w)) (2 * (x * z - y * w)) 0)
       (Float4 (2 * (x * y - z * w)) (1 - 2 * (x * x + z * z)) (2 * (y * z + x * w)) 0)
       (Float4 (2 * (x * z + y * w)) (2 * (y * z - x * w)) (1 - 2 * (x * x + y * y)) 0)
       (Float4 0 0 0 1)"

definition exampleMathLib :: "rat MathLib" where
  "exampleMathLib = \<lparr>Slerp = lerp4, QuaternionToMatrix = quaternionMatrix\<rparr>"

text \<open>
  A playback rule for the examples, whose steps stay within the bounds: the advanced
  progress is kept, and the sign with it.
\<close>

definition keepProgress :: "rat Animation \<Rightarrow> rat \<Rightarrow> rat \<times> rat" where
  "keepProgress a q = (q, sign a)"

definition exampleNode :: "rat AnimationNode" where
  "exampleNode =
     \<lparr>positionValues = [Float3 0 0 0, Float3 10 0 0],
      rotationValues = [],
      scaleValues = [],
      positionKeys = [0, 1000],
      rotationKeys = [],
      scaleKeys = [],
      mTransform = Identity\<rparr>"



definition exampleChild :: "rat NodeTree" where
  "exampleChild = NodeTree [] [0] Identity 0 0"

definition exampleRoot :: "rat NodeTree" where
  "exampleRoot = NodeTree [exampleChild] [] (scaleMatrix (Float3 2 2 2)) 0 InvalidIndex"

definition exampleAnimation :: "rat Animation" where
  "exampleAnimation =
     \<lparr>animationNodes = [exampleNode],
      rootNode = exampleRoot,
      cameraNode = NodeTree [] [] Identity 0 InvalidIndex,
      animationName = ''slide'',
      durationMs = 1000,
      animationProgress = 0,
      sign = 1,
      normalizedTime = 0,
      hasCameraAnimation = False\<rparr>"

definition animatedScene :: "rat Scene" where
  "animatedScene =
     emptyScene\<lparr>sceneInstances := [Instance_default], animations := [exampleAnimation]\<rparr>"


text \<open>
  The node list after an \<open>Update\<close> that put the child 5 units, and 10 units, along x,
  and the scenes of the examples after their calls.
\<close>

definition movedNodes :: "rat AnimationNode list" where
  "movedNodes = [exampleNode\<lparr>mTransform := translationMatrix (Float3 5 0 0)\<rparr>]"

definition movedFurtherNodes :: "rat AnimationNode list" where
  "movedFurtherNodes = [exampleNode\<lparr>mTransform := translationMatrix (Float3 10 0 0)\<rparr>]"

definition firstFrameScene :: "rat Scene" where
  "firstFrameScene =
     animatedScene
       \<lparr>sceneInstances :=
          [Instance_default\<lparr>rotation := scaleMatrix (Float3 2 2 2), position := Float3 10 0 0\<rparr>]\<rparr>"

definition secondFrameScene :: "rat Scene" where
  "secondFrameScene =
     animatedScene
       \<lparr>sceneInstances :=
          [Instance_default
             \<lparr>rotation := scaleMatrix (Float3 2 2 2), rotationPrev := scaleMatrix (Float3 2 2 2),
              position := Float3 20 0 0, positionPrev := Float3 10 0 0\<rparr>]\<rparr>"

text \<open>
  The scenario of the specification: a single node without children that owns one
  instance and is animated by a node with the position keys (0 ms, (0,0,0)) and
  (1000 ms, (10,0,0)).
\<close>

definition scenarioScene :: "rat Scene" where
  "scenarioScene =
     emptyScene
       \<lparr>sceneInstances := [Instance_default],
        animations := [exampleAnimation\<lparr>rootNode := exampleChild\<rparr>]\<rparr>"

text \<open>
  A node that lists instance 0 twice, and the scenes after a first and a second call of
  \<open>Animate\<close> on it.
\<close>

definition twiceListedTree :: "rat NodeTree" where
  "twiceListedTree = NodeTree [] [0, 0] Identity 0 0"

definition twiceFirstScene :: "rat Scene" where
  "twiceFirstScene =
     animatedScene
       \<lparr>sceneInstances :=
          [Instance_default\<lparr>position := Float3 5 0 0, positionPrev := Float3 5 0 0\<rparr>]\<rparr>"

definition twiceSecondScene :: "rat Scene" where
  "twiceSecondScene =
     animatedScene
       \<lparr>sceneInstances :=
          [Instance_default\<lparr>position := Float3 10 0 0, positionPrev := Float3 10 0 0\<rparr>]\<rparr>"

lemmas example_defs =
  animatedScene_def emptyScene_def exampleAnimation_def exampleNode_def exampleRoot_def
  exampleChild_def movedNodes_def movedFurtherNodes_def firstFrameScene_def
  secondFrameScene_def twiceListedTree_def twiceFirstScene_def
  twiceSecondScene_def Instance_default_def Identity_def Zero3_def
  InvalidIndex_def nodeLocal_def writeInstance_def localOf_def

section \<open>Properties of the unload operations\<close>

lemma map_of_filter_fst:
  "map_of (filter (\<lambda>kv. fst kv \<noteq> p) h) q = (if q = p then None else map_of h q)"
  by (induction h) auto

lemma filter_fst_twice:
  "filter (\<lambda>kv. fst kv \<notin> set ps) (filter (\<lambda>kv. fst kv \<noteq> p) h) =
   filter (\<lambda>kv. fst kv \<noteq> p \<and> fst kv \<notin> set ps) h"
  by (induction h) auto

lemma delete_each_owned:
  assumes "distinct (filter (\<lambda>p. p \<noteq> nullptr) ps)"
    and "\<forall>p\<in>set ps. p \<noteq> nullptr \<longrightarrow> map_of h p \<noteq> None"
  shows "delete_each ps h =
         Inr (filter (\<lambda>kv. fst kv \<notin> set (filter (\<lambda>p. p \<noteq> nullptr) ps)) h)"
  using assms
proof (induction ps arbitrary: h)
  case Nil
  then show ?case by simp
next
  case (Cons p ps)
  show ?case
  proof (cases "p = nullptr")
    case True
    with Cons show ?thesis by (simp add: delete_Texture_def)
  next
    case False
    let ?h' = "filter (\<lambda>kv. fst kv \<noteq> p) h"
    from False Cons.prems obtain t where t: "map_of h p = Some t" by auto
    from False Cons.prems have d: "distinct (filter (\<lambda>p. p \<noteq> nullptr) ps)"
      and notin: "p \<notin> set ps" by auto
    have live: "\<forall>q\<in>set ps. q \<noteq> nullptr \<longrightarrow> map_of ?h' q \<noteq> None"
      using Cons.prems(2) notin by (auto simp: map_of_filter_fst)
    have "delete_each (p # ps) h = delete_each ps ?h'"
      using False t by (simp add: delete_Texture_def)
    also have "\<dots> = Inr (filter (\<lambda>kv. fst kv \<notin> set (filter (\<lambda>p. p \<noteq> nullptr) ps)) ?h')"
      by (rule Cons.IH [OF d live])
    also have "\<dots> = Inr (filter (\<lambda>kv. fst kv \<notin> set (filter (\<lambda>p. p \<noteq> nullptr) (p # ps))) h)"
      using False by (simp add: filter_fst_twice)
    finally show ?thesis .
  qed
qed

lemma UnloadTextureData_textures:
  "UnloadTextureData st = Inr st' \<Longrightarrow> textures (snd st') = []"
  by (auto simp: UnloadTextureData_def split: sum.splits)

lemma UnloadTextureData_empty:
  "textures (snd st) = [] \<Longrightarrow> UnloadTextureData st = Inr st"
  by (cases st) (simp add: UnloadTextureData_def)


lemma exampleScene_unload:
  "UnloadTextureData (exampleHeap, exampleScene) =
   Inr ([(3, exampleTexture)], exampleScene\<lparr>textures := []\<rparr>)"
  by (simp add: UnloadTextureData_def exampleScene_def emptyScene_def exampleHeap_def
      delete_Texture_def nullptr_def)

subsection \<open>Ownership of the textures\<close>

text \<open>
  C7. Let every non-null entry of the texture list point to a live texture of the heap,
  no two entries to the same one (the scene owns them). Then \<open>UnloadTextureData\<close>
  succeeds, the destructor does exactly the same, the texture list is empty afterwards,
  and the heap has lost exactly the textures of the list: each of them is gone, every
  other object is as it was. \<open>UnloadGeometryData\<close>, the only other operation the
  header defines, has no access to the heap at all.
\<close>

theorem textures_destroyed_on_unload_or_destruction:
  assumes "distinct (owned s)"
    and "\<forall>p\<in>set (owned s). map_of h p \<noteq> None"
  shows "\<exists>h'. UnloadTextureData (h, s) = Inr (h', s\<lparr>textures := []\<rparr>)
           \<and> Scene_destructor (h, s) = Inr (h', s\<lparr>textures := []\<rparr>)
           \<and> textures (s\<lparr>textures := []\<rparr>) = []
           \<and> h' = filter (\<lambda>kv. fst kv \<notin> set (owned s)) h
           \<and> (\<forall>p. map_of h' p = (if p \<in> set (owned s) then None else map_of h p))"
proof -
  let ?h' = "filter (\<lambda>kv. fst kv \<notin> set (owned s)) h"
  have live: "\<forall>p\<in>set (textures s). p \<noteq> nullptr \<longrightarrow> map_of h p \<noteq> None"
    using assms(2) by (simp add: owned_def)
  have "delete_each (textures s) h = Inr ?h'"
    using delete_each_owned [OF assms(1) [unfolded owned_def] live]
    by (simp add: owned_def)
  then have u: "UnloadTextureData (h, s) = Inr (?h', s\<lparr>textures := []\<rparr>)"
    by (simp add: UnloadTextureData_def)
  have m: "map_of ?h' p = (if p \<in> set (owned s) then None else map_of h p)" for p
    by (induction h) auto
  from u m show ?thesis
    by (simp add: Scene_destructor_def)
qed

theorem textures_destroyed_witness:
  "UnloadTextureData (exampleHeap, exampleScene) =
     Inr ([(3, exampleTexture)], exampleScene\<lparr>textures := []\<rparr>)
   \<and> Scene_destructor (exampleHeap, exampleScene) =
     Inr ([(3, exampleTexture)], exampleScene\<lparr>textures := []\<rparr>)
   \<and> map_of exampleHeap 1 \<noteq> None \<and> map_of [(3::nat, exampleTexture)] 1 = None"
proof -
  have o: "owned exampleScene = [1, 2]"
    by (simp add: owned_def exampleScene_def emptyScene_def nullptr_def)
  have d: "distinct (owned exampleScene)"
    by (simp add: o)
  have l: "\<forall>p\<in>set (owned exampleScene). map_of exampleHeap p \<noteq> None"
    by (simp add: o exampleHeap_def)
  have f: "filter (\<lambda>kv. fst kv \<notin> set (owned exampleScene)) exampleHeap = [(3, exampleTexture)]"
    by (simp add: o exampleHeap_def)
  have m: "map_of exampleHeap 1 \<noteq> None"
    by (simp add: exampleHeap_def)
  from textures_destroyed_on_unload_or_destruction [OF d l] f m show ?thesis
    by auto
qed

subsection \<open>Frame of the unload operations\<close>

text \<open>
  C8. \<open>UnloadGeometryData\<close> empties the four geometry buffers (vertices, unpacked
  vertices, indices, primitives) and leaves the textures, materials, instances, meshes,
  animations, the scene-to-world matrix and the bounding box as they were. Whenever
  \<open>UnloadTextureData\<close> returns, every field but the texture list is as it was.
\<close>

theorem unload_frame:
  "vertices (UnloadGeometryData s) = []
   \<and> unpackedVertices (UnloadGeometryData s) = []
   \<and> indices (UnloadGeometryData s) = []
   \<and> primitives (UnloadGeometryData s) = []
   \<and> textures (UnloadGeometryData s) = textures s
   \<and> materials (UnloadGeometryData s) = materials s
   \<and> sceneInstances (UnloadGeometryData s) = sceneInstances s
   \<and> meshes (UnloadGeometryData s) = meshes s
   \<and> animations (UnloadGeometryData s) = animations s
   \<and> mSceneToWorld (UnloadGeometryData s) = mSceneToWorld s
   \<and> aabb (UnloadGeometryData s) = aabb s
   \<and> (\<forall>h h' s'. UnloadTextureData (h, s) = Inr (h', s') \<longrightarrow>
        vertices s' = vertices s
        \<and> unpackedVertices s' = unpackedVertices s
        \<and> indices s' = indices s
        \<and> primitives s' = primitives s
        \<and> materials s' = materials s
        \<and> sceneInstances s' = sceneInstances s
        \<and> meshes s' = meshes s
        \<and> animations s' = animations s
        \<and> mSceneToWorld s' = mSceneToWorld s
        \<and> aabb s' = aabb s)"
  by (auto simp: UnloadGeometryData_def UnloadTextureData_def split: sum.splits)

theorem unload_frame_witness:
  "vertices (UnloadGeometryData exampleScene) = []
   \<and> textures (UnloadGeometryData exampleScene) = [1, 0, 2]
   \<and> sceneInstances (UnloadGeometryData exampleScene) = [Instance_default]
   \<and> UnloadTextureData (exampleHeap, exampleScene) =
       Inr ([(3, exampleTexture)], exampleScene\<lparr>textures := []\<rparr>)
   \<and> vertices (exampleScene\<lparr>textures := []\<rparr>) = vertices exampleScene
   \<and> materials (exampleScene\<lparr>textures := []\<rparr>) = [Material_default]"
proof -
  have g: "vertices (UnloadGeometryData exampleScene) = []
      \<and> textures (UnloadGeometryData exampleScene) = textures exampleScene
      \<and> sceneInstances (UnloadGeometryData exampleScene) = sceneInstances exampleScene"
    using unload_frame [of exampleScene] by blast
  have t: "vertices (exampleScene\<lparr>textures := []\<rparr>) = vertices exampleScene
      \<and> materials (exampleScene\<lparr>textures := []\<rparr>) = materials exampleScene"
    using unload_frame [of exampleScene] exampleScene_unload by blast
  have v: "textures exampleScene = [1, 0, 2]" "sceneInstances exampleScene = [Instance_default]"
    "materials exampleScene = [Material_default]"
    by (simp_all add: exampleScene_def emptyScene_def)
  from g t v exampleScene_unload show ?thesis
    by simp
qed

subsection \<open>Default instance\<close>

text \<open>
  C9. A default-constructed instance has the identity matrix as rotation and as previous
  rotation, the zero vector as position and as previous position, scale (1,1,1), mesh
  and material index \<open>InvalidIndex\<close> (all 32 bits set) and \<open>allowUpdate\<close> false.
  Its current and previous transform are the same.
\<close>

theorem Instance_default_fields:
  "rotation Instance_default = Identity
   \<and> rotationPrev Instance_default = Identity
   \<and> position Instance_default = Zero3
   \<and> positionPrev Instance_default = Zero3
   \<and> rotation Instance_default = rotationPrev Instance_default
   \<and> position Instance_default = positionPrev Instance_default
   \<and> scale Instance_default = Float3 1 1 1
   \<and> meshIndex Instance_default = InvalidIndex
   \<and> materialIndex Instance_default = InvalidIndex
   \<and> unat InvalidIndex = 2 ^ 32 - 1
   \<and> \<not> allowUpdate Instance_default"
  by (simp add: Instance_default_def InvalidIndex_def unsigned_minus_1_eq_mask mask_eq_exp_minus_1)

subsection \<open>Unloading twice\<close>

text \<open>
  C10. After \<open>UnloadTextureData\<close> has returned, the texture list is empty, and a
  second call, or the destructor, returns the same heap and the same scene: nothing is
  deleted. \<open>UnloadGeometryData\<close> applied twice gives what it gives applied once, the
  four buffers being empty already.
\<close>

theorem unload_idempotent:
  assumes "UnloadTextureData st = Inr st1"
  shows "textures (snd st1) = []
         \<and> UnloadTextureData st1 = Inr st1
         \<and> Scene_destructor st1 = Inr st1
         \<and> vertices (UnloadGeometryData s) = []
         \<and> unpackedVertices (UnloadGeometryData s) = []
         \<and> indices (UnloadGeometryData s) = []
         \<and> primitives (UnloadGeometryData s) = []
         \<and> UnloadGeometryData (UnloadGeometryData s) = UnloadGeometryData s"
proof -
  have e: "textures (snd st1) = []"
    using assms by (rule UnloadTextureData_textures)
  then have "UnloadTextureData st1 = Inr st1"
    by (rule UnloadTextureData_empty)
  with e show ?thesis
    by (simp add: Scene_destructor_def UnloadGeometryData_def)
qed

theorem unload_idempotent_witness:
  "UnloadTextureData (exampleHeap, exampleScene) =
     Inr ([(3, exampleTexture)], exampleScene\<lparr>textures := []\<rparr>)
   \<and> UnloadTextureData ([(3, exampleTexture)], exampleScene\<lparr>textures := []\<rparr>) =
     Inr ([(3, exampleTexture)], exampleScene\<lparr>textures := []\<rparr>)
   \<and> Scene_destructor ([(3, exampleTexture)], exampleScene\<lparr>textures := []\<rparr>) =
     Inr ([(3, exampleTexture)], exampleScene\<lparr>textures := []\<rparr>)
   \<and> UnloadGeometryData (UnloadGeometryData exampleScene) = UnloadGeometryData exampleScene"
  using unload_idempotent [OF exampleScene_unload, of exampleScene] exampleScene_unload
  by simp

section \<open>Properties of the keyframe sampling\<close>


















text \<open>
  C5. \<open>Update\<close> with the same time twice gives the node the first call gave. The
  transform it writes depends on the time and the keyframe data only: not on the
  transform the node held before, and not on the time of an earlier call.
\<close>

theorem Update_idempotent:
  "Update ml (Update ml n t) t = Update ml n t
   \<and> mTransform (Update ml (Update ml n t') t) = mTransform (Update ml n t)
   \<and> mTransform (Update ml (n\<lparr>mTransform := m\<rparr>) t) = mTransform (Update ml n t)"
  by (simp add: Update_def samplePosition_def sampleRotation_def sampleScale_def)

section \<open>Properties of the traversal\<close>

lemma Identity_mat_mul: "mat_mul Identity (A::'a::semiring_1 float4x4) = A"
proof (cases A)
  case (Float4x4 c0 c1 c2 c3)
  obtain a0 a1 a2 a3 where c0: "c0 = Float4 a0 a1 a2 a3" by (cases c0)
  obtain b0 b1 b2 b3 where c1: "c1 = Float4 b0 b1 b2 b3" by (cases c1)
  obtain d0 d1 d2 d3 where c2: "c2 = Float4 d0 d1 d2 d3" by (cases c2)
  obtain e0 e1 e2 e3 where c3: "c3 = Float4 e0 e1 e2 e3" by (cases c3)
  show ?thesis
    by (simp add: Float4x4 c0 c1 c2 c3 Identity_def)
qed








lemma writeInstances_in_range:
  "list_all (\<lambda>j. unat j < length insts) js \<Longrightarrow>
     \<exists>insts'. writeInstances w js insts = Inr insts' \<and> length insts' = length insts"
proof (induction js arbitrary: insts)
  case Nil
  then show ?case by simp
next
  case (Cons a js)
  let ?insts = "insts[unat a := writeInstance w (insts ! unat a)]"
  from Cons.prems have "list_all (\<lambda>j. unat j < length ?insts) js"
    by simp
  from Cons.IH [OF this] Cons.prems show ?case
    by simp
qed




text \<open>
  C2. A node's world transform is the parent's transform times the node's local
  transform, in this order. In a tree of two levels, the root with local transform
  \<open>R\<close> and its only child with local transform \<open>C\<close> and the instance \<open>i\<close>:
  called with a parent transform, \<open>Animate\<close> gives the instance the rotation and the
  position of \<open>(parent \<times> R) \<times> C\<close>; called with the identity, as \<open>Scene::Animate\<close>
  calls it, those of \<open>R \<times> C\<close>. With a non-null \<open>outTransform\<close> the same product is
  written there and the scene is untouched. The example after the theorem has a scaling
  as \<open>R\<close> and a translation as \<open>C\<close>, where \<open>C \<times> R\<close> would give another
  position.
\<close>

theorem child_instance_receives_parent_times_local:
  fixes parent :: "'a::semiring_1 float4x4"
  assumes "children rootTree = [childTree]" and "children childTree = []" and "instances childTree = [i]"
    and "nodeLocal rootTree nodes = Inr R" and "nodeLocal childTree nodes = Inr C"
    and "list_all (\<lambda>j. unat j < length (sceneInstances scene)) (instances rootTree)"
    and "unat i < length (sceneInstances scene)"
  shows "(\<exists>scene'. Animate rootTree nodes parent (scene, None) = Inr (scene', None)
            \<and> rotation (sceneInstances scene' ! unat i) = rotationOf (mat_mul (mat_mul parent R) C)
            \<and> position (sceneInstances scene' ! unat i) = translationOf (mat_mul (mat_mul parent R) C))
       \<and> (\<exists>scene'. Animate rootTree nodes Identity (scene, None) = Inr (scene', None)
            \<and> rotation (sceneInstances scene' ! unat i) = rotationOf (mat_mul R C)
            \<and> position (sceneInstances scene' ! unat i) = translationOf (mat_mul R C))
       \<and> Animate rootTree nodes parent (scene, Some out) = Inr (scene, Some (mat_mul (mat_mul parent R) C))
       \<and> worldTransforms rootTree nodes parent =
           map (\<lambda>j. (j, mat_mul parent R)) (instances rootTree) @ [(i, mat_mul (mat_mul parent R) C)]"
proof -
  obtain mc hc ac where childTree: "childTree = NodeTree [] [i] mc hc ac"
    using assms(2,3) by (cases childTree) auto
  obtain ris mr hr ar where rootTree: "rootTree = NodeTree [NodeTree [] [i] mc hc ac] ris mr hr ar"
    using assms(1) childTree by (cases rootTree) auto
  have lr: "nodeLocal (NodeTree [NodeTree [] [i] mc hc ac] ris mr hr ar) nodes = Inr R"
    using assms(4) rootTree by simp
  have lc: "nodeLocal (NodeTree [] [i] mc hc ac) nodes = Inr C"
    using assms(5) childTree by simp
  have rng: "list_all (\<lambda>j. unat j < length (sceneInstances scene)) ris"
    using assms(6) rootTree by simp
  have gen: "\<exists>scene'. Animate rootTree nodes P (scene, None) = Inr (scene', None)
            \<and> rotation (sceneInstances scene' ! unat i) = rotationOf (mat_mul (mat_mul P R) C)
            \<and> position (sceneInstances scene' ! unat i) = translationOf (mat_mul (mat_mul P R) C)"
    for P :: "'a float4x4"
  proof -
    from writeInstances_in_range [OF rng] obtain insts1 where
      w1: "writeInstances (mat_mul P R) ris (sceneInstances scene) = Inr insts1"
      and len: "length insts1 = length (sceneInstances scene)"
      by blast
    from assms(7) len have i: "unat i < length insts1" by simp
    show ?thesis
      using w1 i lr lc by (simp add: rootTree writeInstance_def)
  qed
  have cam: "Animate rootTree nodes parent (scene, Some out) = Inr (scene, Some (mat_mul (mat_mul parent R) C))"
    using lr lc by (simp add: rootTree)
  have wt: "worldTransforms rootTree nodes parent =
           map (\<lambda>j. (j, mat_mul parent R)) (instances rootTree) @ [(i, mat_mul (mat_mul parent R) C)]"
    using lr lc by (simp add: rootTree localOf_def)
  from gen [of parent] gen [of Identity] cam wt show ?thesis
    by (simp add: Identity_mat_mul)
qed

theorem child_instance_witness:
  "Animate exampleRoot movedNodes Identity (animatedScene, Some Identity) =
     Inr (animatedScene,
          Some (Float4x4 (Float4 2 0 0 0) (Float4 0 2 0 0) (Float4 0 0 2 0) (Float4 10 0 0 1)))
   \<and> (\<exists>scene'. Animate exampleRoot movedNodes Identity (animatedScene, None) = Inr (scene', None)
         \<and> position (sceneInstances scene' ! unat (0 :: 32 word)) = Float3 10 0 0)
   \<and> translationOf (mat_mul (translationMatrix (Float3 5 0 0)) (scaleMatrix (Float3 2 2 (2 :: rat))))
       = Float3 5 0 0"
proof -
  have 1: "children exampleRoot = [exampleChild]" and 2: "children exampleChild = []"
    and 3: "instances exampleChild = [0]"
    and 4: "nodeLocal exampleRoot movedNodes = Inr (scaleMatrix (Float3 2 2 2))"
    and 5: "nodeLocal exampleChild movedNodes = Inr (translationMatrix (Float3 5 0 0))"
    and 6: "list_all (\<lambda>j. unat j < length (sceneInstances animatedScene)) (instances exampleRoot)"
    and 7: "unat (0 :: 32 word) < length (sceneInstances animatedScene)"
    by (simp_all add: example_defs)
  have m: "mat_mul (scaleMatrix (Float3 2 2 2)) (translationMatrix (Float3 5 0 (0 :: rat))) =
      Float4x4 (Float4 2 0 0 0) (Float4 0 2 0 0) (Float4 0 0 2 0) (Float4 10 0 0 1)"
    by simp
  note th = child_instance_receives_parent_times_local
    [OF 1 2 3 4 5 6 7, where parent = Identity and out = Identity]
  from th have a: "\<exists>scene'. Animate exampleRoot movedNodes Identity (animatedScene, None) = Inr (scene', None)
      \<and> position (sceneInstances scene' ! unat (0 :: 32 word))
          = translationOf (mat_mul (scaleMatrix (Float3 2 2 2)) (translationMatrix (Float3 5 0 0)))"
    by blast
  from th have b: "Animate exampleRoot movedNodes Identity (animatedScene, Some Identity) =
      Inr (animatedScene, Some (mat_mul (mat_mul Identity (scaleMatrix (Float3 2 2 2)))
        (translationMatrix (Float3 5 0 0))))"
    by blast
  from a b show ?thesis
    unfolding Identity_mat_mul m by simp
qed




section \<open>Properties of Scene::Animate\<close>

text \<open>
  The scenario of the specification: \<open>Animate(speed = 1, elapsed = 500 ms, progress
  = 0, index 0, null)\<close> puts the instance at (5,0,0).
\<close>

lemma specification_scenario:
  "map_sum id (\<lambda>r. map position (sceneInstances (fst r)))
     (Scene_Animate exampleMathLib keepProgress scenarioScene 1 500 0 0 None) =
   Inr [Float3 5 0 0]"
  by (simp add: Scene_Animate_def keepProgress_def Update_def
      samplePosition_def sampleRotation_def sampleScale_def sample_def factor_def lerp_def
      composeTransform_def scenarioScene_def example_defs)

text \<open>
  C1. With an animation index that is not below the number of animations,
  \<open>Scene::Animate\<close> returns the scene, the progress and the memory behind
  \<open>outCameraTransform\<close> as they were.
\<close>

theorem Animate_invalid_index_noop:
  "length (animations scene) \<le> unat animationIndex \<Longrightarrow>
     Scene_Animate ml playback scene animationSpeed elapsedTime progress animationIndex out =
     Inr (scene, progress, out)"
  by (simp add: Scene_Animate_def)

theorem Animate_invalid_index_witness:
  "length (animations animatedScene) \<le> unat (1 :: 32 word)
   \<and> Scene_Animate exampleMathLib keepProgress animatedScene 1 500 0 1 (Some Identity) =
     Inr (animatedScene, 0, Some Identity)"
proof -
  have l: "length (animations animatedScene) \<le> unat (1 :: 32 word)"
    by (simp add: animatedScene_def emptyScene_def)
  from l Animate_invalid_index_noop [OF l] show ?thesis
    by simp
qed

end
